theory Spec2Isabelle
  imports Complex_Main "HOL-Library.Sublist"
begin

section \<open>The OpenAI-compatible provider adapter (src/api/providers/openai.ts)\<close>

text \<open>
  A shallow embedding of the class \<^verbatim>\<open>OpenAiHandler\<close>. The handler object is a record
  that every operation takes and returns; what the awaited SDK calls settle to is an
  argument (\<open>Inl\<close> a rejection, \<open>Inr\<close> the value); everything the handler does to the
  outside (SDK calls, console lines) is appended to a list of effects; a \<^verbatim>\<open>throw\<close> that
  leaves an operation is the field \<open>thrown\<close> of its outcome.

  JavaScript values are modelled as follows: \<^verbatim>\<open>string | undefined\<close> is
  \<open>string option\<close>, a \<^verbatim>\<open>number\<close> is a \<open>real\<close>, a string is falsy exactly when it is
  empty, \<^verbatim>\<open>a ?? b\<close> replaces only \<open>None\<close> and \<^verbatim>\<open>a || b\<close> replaces every falsy value.

  \<^verbatim>\<open>createMessage\<close> is an asynchronous generator: the model is the body run by a consumer
  that takes every event. The decorator \<^verbatim>\<open>@withRetry()\<close> comes from another file and is
  not modelled: a call is one run of the body.
\<close>

subsection \<open>Strings\<close>

text \<open>\<^verbatim>\<open>String.prototype.includes\<close>: the pattern occurs at some position of the string.\<close>

fun str_includes :: "string \<Rightarrow> string \<Rightarrow> bool" where
  "str_includes [] p = (p = [])"
| "str_includes (c # cs) p = (prefix p (c # cs) \<or> str_includes cs p)"

text \<open>
  \<^verbatim>\<open>String.prototype.toLowerCase\<close> on the ASCII letters. Strings are byte lists here;
  no character outside ASCII lower-cases to a letter of \<^verbatim>\<open>azure.com\<close>, the only pattern a
  lower-cased string is searched for, so the other bytes are left as they are.
\<close>

definition toLowerCase_char :: "char \<Rightarrow> char" where
  "toLowerCase_char c =
     (case map_of (zip ''ABCDEFGHIJKLMNOPQRSTUVWXYZ'' ''abcdefghijklmnopqrstuvwxyz'') c of
        Some l \<Rightarrow> l
      | None \<Rightarrow> c)"

definition toLowerCase :: "string \<Rightarrow> string" where
  "toLowerCase s = map toLowerCase_char s"

text \<open>Truthiness of an optional string: defined and not empty.\<close>

fun truthy :: "string option \<Rightarrow> bool" where
  "truthy None = False"
| "truthy (Some s) = (s \<noteq> [])"

text \<open>\<^verbatim>\<open>a || b\<close> on an optional string \<open>a\<close>.\<close>

fun orElse :: "string option \<Rightarrow> string \<Rightarrow> string" where
  "orElse None b = b"
| "orElse (Some s) b = (if s = [] then b else s)"

subsection \<open>Data\<close>

datatype JsError = Error (message: string)

text \<open>
  \<^verbatim>\<open>ModelInfo\<close> and \<^verbatim>\<open>ApiHandlerOptions\<close> (declared in shared/api): the fields this file
  reads, each optional as declared there.
\<close>

record ModelInfo =
  maxTokens :: "real option"
  temperature :: "real option"
  isR1FormatRequired :: "bool option"

record ApiHandlerOptions =
  openAiApiKey :: "string option"
  openAiBaseUrl :: "string option"
  azureApiVersion :: "string option"
  openAiModelId :: "string option"
  openAiModelInfo :: "ModelInfo option"
  o3MiniReasoningEffort :: "string option"

text \<open>
  Conversation messages. The adapter never looks inside a message's content: it builds
  the message that carries the system prompt and hands lists to the converters.
\<close>

datatype Role = User | Assistant

datatype MessageParam = MessageParam (role: Role) (content: string)

datatype ChatCompletionMessageParam = ChatMessage (chat_role: string) (chat_content: string)

text \<open>
  The imports of the file that are not part of it: the two message converters
  (transform/openai-format, transform/r1-format) and the two constants of shared/api.
  They are parameters of every definition that uses them.
\<close>

record Externals =
  convertToOpenAiMessages :: "MessageParam list \<Rightarrow> ChatCompletionMessageParam list"
  convertToR1Format :: "MessageParam list \<Rightarrow> ChatCompletionMessageParam list"
  azureOpenAiDefaultApiVersion :: string
  openAiModelInfoSaneDefaults :: ModelInfo

text \<open>The two client classes of the SDK, with the arguments they are constructed from.\<close>

datatype Client =
    OpenAI (baseURL: "string option") (apiKey: string)
  | AzureOpenAI (baseURL: "string option") (apiKey: string) (apiVersion: string)

record OpenAiHandler =
  options :: ApiHandlerOptions
  client :: Client
  availableModels :: "string list"

text \<open>The argument of \<^verbatim>\<open>client.chat.completions.create\<close>.\<close>

record ChatCompletionCreateParams =
  model :: string
  messages :: "ChatCompletionMessageParam list"
  sampling_temperature :: "real option"
  max_tokens :: "real option"
  reasoning_effort :: "string option"
  stream :: bool
  include_usage :: bool

text \<open>
  A chunk of the response stream. \<open>reasoning_content\<close> is a vendor field: \<open>None\<close> when
  the delta does not have it, \<open>Some v\<close> when it does, with \<open>v = None\<close> for a null value.
  Token counts may be missing.
\<close>

record Delta =
  delta_content :: "string option"
  reasoning_content :: "string option option"

record Choice =
  delta :: "Delta option"

record CompletionUsage =
  prompt_tokens :: "int option"
  completion_tokens :: "int option"

record ChatCompletionChunk =
  choices :: "Choice list"
  usage :: "CompletionUsage option"

text \<open>The events of \<^verbatim>\<open>ApiStream\<close> (transform/stream).\<close>

datatype ApiStreamChunk =
    ApiStreamTextChunk string
  | ApiStreamReasoningChunk string
  | ApiStreamUsageChunk int int

text \<open>The page \<^verbatim>\<open>client.models.list()\<close> resolves to.\<close>

datatype Model = Model (model_id: string)

datatype ModelsPage = ModelsPage (data: "Model list")

text \<open>
  What the SDK's calls settle to during one operation: the listing call, and the
  chat-completion call for a given request. A response stream is the chunks it
  delivers and, when it breaks off, the error its iteration throws.
\<close>

type_synonym ChunkStream = "ChatCompletionChunk list \<times> JsError option"

record Transport =
  models_list :: "JsError + ModelsPage"
  chat_completions_create :: "ChatCompletionCreateParams \<Rightarrow> JsError + ChunkStream"

datatype ConsoleLine =
    Retrieved_models nat
  | Using_first_available_model string
  | Failed_to_retrieve_models_during_initialization string
  | Failed_to_retrieve_models string
  | Error_fetching_model_list string

datatype Effect =
    ModelsList
  | ChatCompletionsCreate ChatCompletionCreateParams
  | Console ConsoleLine

text \<open>How a call of \<^verbatim>\<open>createMessage\<close> ends: the handler after it, what it did, the events
  it yielded and the error it threw, if any.\<close>

record Outcome =
  after :: OpenAiHandler
  effects :: "Effect list"
  yielded :: "ApiStreamChunk list"
  thrown :: "JsError option"

subsection \<open>The constructor (lines 16-36)\<close>

definition isAzure :: "ApiHandlerOptions \<Rightarrow> bool" where
  "isAzure opts \<longleftrightarrow>
     truthy (azureApiVersion opts) \<or>
     (case openAiBaseUrl opts of
        None \<Rightarrow> False
      | Some url \<Rightarrow> str_includes (toLowerCase url) ''azure.com'')"

definition newClient :: "Externals \<Rightarrow> ApiHandlerOptions \<Rightarrow> Client" where
  "newClient ext opts =
     (let key = orElse (openAiApiKey opts) []
      in if isAzure opts
         then AzureOpenAI (openAiBaseUrl opts) key
                (orElse (azureApiVersion opts) (azureOpenAiDefaultApiVersion ext))
         else OpenAI (openAiBaseUrl opts) key)"

text \<open>
  The constructor returns with the cache empty: \<^verbatim>\<open>initializeModelList()\<close> is called and
  not awaited, so its listing request is out and its assignment to the cache happens
  when that request settles.
\<close>

definition constructor :: "Externals \<Rightarrow> ApiHandlerOptions \<Rightarrow> OpenAiHandler" where
  "constructor ext opts =
     \<lparr>options = opts, client = newClient ext opts, availableModels = []\<rparr>"

subsection \<open>listModels (lines 134-142) and initializeModelList (lines 38-46)\<close>

text \<open>
  The argument is what \<^verbatim>\<open>this.client.models.list()\<close> settles to. The result is what the
  promise of \<^verbatim>\<open>listModels\<close> settles to, with the effects of the call.
\<close>

definition listModels :: "JsError + ModelsPage \<Rightarrow> (JsError + string list) \<times> Effect list" where
  "listModels settled =
     (case settled of
        Inr response \<Rightarrow> (Inr (map model_id (data response)), [ModelsList])
      | Inl error \<Rightarrow> (Inr [], [ModelsList, Console (Error_fetching_model_list (message error))]))"

definition initializeModelList ::
  "JsError + ModelsPage \<Rightarrow> OpenAiHandler \<Rightarrow> OpenAiHandler \<times> Effect list" where
  "initializeModelList settled h =
     (case listModels settled of
        (Inr ids, effs) \<Rightarrow>
          (h\<lparr>availableModels := ids\<rparr>, effs @ [Console (Retrieved_models (length ids))])
      | (Inl error, effs) \<Rightarrow>
          (h\<lparr>availableModels := []\<rparr>,
           effs @ [Console (Failed_to_retrieve_models_during_initialization (message error))]))"

subsection \<open>createMessage: shaping the request (lines 71-107)\<close>

definition isDeepseekReasoner :: "string \<Rightarrow> bool" where
  "isDeepseekReasoner modelId = str_includes modelId ''deepseek-reasoner''"

definition isO3Mini :: "string \<Rightarrow> bool" where
  "isO3Mini modelId = str_includes modelId ''o3-mini''"

definition r1FormatRequired :: "ApiHandlerOptions \<Rightarrow> bool" where
  "r1FormatRequired opts =
     (case openAiModelInfo opts of
        None \<Rightarrow> False
      | Some info \<Rightarrow> (case isR1FormatRequired info of None \<Rightarrow> False | Some b \<Rightarrow> b))"

definition resolveTemperature :: "Externals \<Rightarrow> ApiHandlerOptions \<Rightarrow> real option" where
  "resolveTemperature ext opts =
     (case openAiModelInfo opts of
        None \<Rightarrow> temperature (openAiModelInfoSaneDefaults ext)
      | Some info \<Rightarrow>
          (case temperature info of
             None \<Rightarrow> temperature (openAiModelInfoSaneDefaults ext)
           | Some t \<Rightarrow> Some t))"

definition resolveMaxTokens :: "ApiHandlerOptions \<Rightarrow> real option" where
  "resolveMaxTokens opts =
     (case openAiModelInfo opts of
        None \<Rightarrow> None
      | Some info \<Rightarrow>
          (case maxTokens info of
             None \<Rightarrow> None
           | Some n \<Rightarrow> if n \<noteq> 0 \<and> n > 0 then Some n else None))"

definition shapeRequest ::
  "Externals \<Rightarrow> ApiHandlerOptions \<Rightarrow> string \<Rightarrow> string \<Rightarrow> MessageParam list
     \<Rightarrow> ChatCompletionCreateParams" where
  "shapeRequest ext opts modelId systemPrompt msgs =
     (let openAiMessages0 = ChatMessage ''system'' systemPrompt # convertToOpenAiMessages ext msgs;
          temperature0 = resolveTemperature ext opts;
          maxTokens0 = resolveMaxTokens opts;
          openAiMessages1 =
            (if isDeepseekReasoner modelId \<or> r1FormatRequired opts
             then convertToR1Format ext (MessageParam User systemPrompt # msgs)
             else openAiMessages0);
          openAiMessages2 =
            (if isO3Mini modelId
             then ChatMessage ''developer'' systemPrompt # convertToOpenAiMessages ext msgs
             else openAiMessages1);
          temperature1 = (if isO3Mini modelId then None else temperature0);
          reasoningEffort =
            (if isO3Mini modelId
             then Some (orElse (o3MiniReasoningEffort opts) ''medium'')
             else None)
      in \<lparr>model = modelId, messages = openAiMessages2, sampling_temperature = temperature1,
          max_tokens = maxTokens0, reasoning_effort = reasoningEffort, stream = True,
          include_usage = True\<rparr>)"

subsection \<open>createMessage: the response stream (lines 108-131)\<close>

definition orZero :: "int option \<Rightarrow> int" where
  "orZero n = (case n of None \<Rightarrow> 0 | Some k \<Rightarrow> if k = 0 then 0 else k)"

definition firstDelta :: "ChatCompletionChunk \<Rightarrow> Delta option" where
  "firstDelta chunk = (case choices chunk of [] \<Rightarrow> None | c # _ \<Rightarrow> delta c)"

definition textEvents :: "Delta option \<Rightarrow> ApiStreamChunk list" where
  "textEvents d =
     (case d of
        None \<Rightarrow> []
      | Some dl \<Rightarrow>
          (case delta_content dl of
             None \<Rightarrow> []
           | Some s \<Rightarrow> if s \<noteq> [] then [ApiStreamTextChunk s] else []))"

definition reasoningEvents :: "Delta option \<Rightarrow> ApiStreamChunk list" where
  "reasoningEvents d =
     (case d of
        None \<Rightarrow> []
      | Some dl \<Rightarrow>
          (case reasoning_content dl of
             None \<Rightarrow> []
           | Some v \<Rightarrow>
               if truthy v then [ApiStreamReasoningChunk (orElse v [])] else []))"

definition usageEvents :: "ChatCompletionChunk \<Rightarrow> ApiStreamChunk list" where
  "usageEvents chunk =
     (case usage chunk of
        None \<Rightarrow> []
      | Some u \<Rightarrow> [ApiStreamUsageChunk (orZero (prompt_tokens u)) (orZero (completion_tokens u))])"

definition chunkEvents :: "ChatCompletionChunk \<Rightarrow> ApiStreamChunk list" where
  "chunkEvents chunk =
     textEvents (firstDelta chunk) @ reasoningEvents (firstDelta chunk) @ usageEvents chunk"

fun forAwait :: "ChatCompletionChunk list \<Rightarrow> ApiStreamChunk list" where
  "forAwait [] = []"
| "forAwait (chunk # rest) = chunkEvents chunk @ forAwait rest"

subsection \<open>createMessage: resolving the model and running the request (lines 49-132)\<close>

text \<open>Lines 71-131, for a resolved model id.\<close>

definition sendRequest ::
  "Externals \<Rightarrow> Transport \<Rightarrow> OpenAiHandler \<Rightarrow> Effect list \<Rightarrow> string \<Rightarrow> string
     \<Rightarrow> MessageParam list \<Rightarrow> Outcome" where
  "sendRequest ext net h sofar modelId systemPrompt msgs =
     (let request = shapeRequest ext (options h) modelId systemPrompt msgs;
          effs = sofar @ [ChatCompletionsCreate request]
      in case chat_completions_create net request of
           Inl error \<Rightarrow> \<lparr>after = h, effects = effs, yielded = [], thrown = Some error\<rparr>
         | Inr (chunks, broken) \<Rightarrow>
             \<lparr>after = h, effects = effs, yielded = forAwait chunks, thrown = broken\<rparr>)"

text \<open>Lines 63-69 and what follows: the cache decides the model when none is configured.\<close>

definition pickCachedModel ::
  "Externals \<Rightarrow> Transport \<Rightarrow> OpenAiHandler \<Rightarrow> Effect list \<Rightarrow> string
     \<Rightarrow> MessageParam list \<Rightarrow> Outcome" where
  "pickCachedModel ext net h sofar systemPrompt msgs =
     (case availableModels h of
        first # _ \<Rightarrow>
          sendRequest ext net h (sofar @ [Console (Using_first_available_model first)])
            first systemPrompt msgs
      | [] \<Rightarrow>
          \<lparr>after = h, effects = sofar, yielded = [],
           thrown = Some (Error ''No models available from the OpenAI-compatible server'')\<rparr>)"

text \<open>
  Lines 51-55: the call runs without suspending up to \<^verbatim>\<open>await this.listModels()\<close>, which
  it reaches exactly when no model id is configured and the cache is empty.
\<close>

definition configuredModelId :: "OpenAiHandler \<Rightarrow> string" where
  "configuredModelId h = (case openAiModelId (options h) of None \<Rightarrow> [] | Some m \<Rightarrow> m)"

definition awaitsListModels :: "OpenAiHandler \<Rightarrow> bool" where
  "awaitsListModels h \<longleftrightarrow> configuredModelId h = [] \<and> availableModels h = []"

text \<open>
  Lines 56-60 and the rest of the call, from the moment the awaited listing settles:
  \<open>h\<close> is the handler at that moment.
\<close>

definition resumeCreateMessage ::
  "Externals \<Rightarrow> Transport \<Rightarrow> JsError + ModelsPage \<Rightarrow> OpenAiHandler \<Rightarrow> string
     \<Rightarrow> MessageParam list \<Rightarrow> Outcome" where
  "resumeCreateMessage ext net settled h systemPrompt msgs =
     (case listModels settled of
        (Inr ids, effs) \<Rightarrow>
          pickCachedModel ext net (h\<lparr>availableModels := ids\<rparr>) effs systemPrompt msgs
      | (Inl error, effs) \<Rightarrow>
          pickCachedModel ext net h
            (effs @ [Console (Failed_to_retrieve_models (message error))]) systemPrompt msgs)"

text \<open>One call of \<^verbatim>\<open>createMessage\<close>, run from its start to its end.\<close>

definition createMessage ::
  "Externals \<Rightarrow> Transport \<Rightarrow> OpenAiHandler \<Rightarrow> string \<Rightarrow> MessageParam list \<Rightarrow> Outcome" where
  "createMessage ext net h systemPrompt msgs =
     (if configuredModelId h = []
      then if availableModels h = []
           then resumeCreateMessage ext net (models_list net) h systemPrompt msgs
           else pickCachedModel ext net h [] systemPrompt msgs
      else sendRequest ext net h [] (configuredModelId h) systemPrompt msgs)"

subsection \<open>getModel and getAvailableModels (lines 144-158)\<close>

definition getModel :: "Externals \<Rightarrow> OpenAiHandler \<Rightarrow> string \<times> ModelInfo" where
  "getModel ext h =
     (configuredModelId h,
      case openAiModelInfo (options h) of
        None \<Rightarrow> openAiModelInfoSaneDefaults ext
      | Some info \<Rightarrow> info)"

definition getAvailableModels :: "OpenAiHandler \<Rightarrow> string list" where
  "getAvailableModels h = availableModels h"

subsection \<open>Observations on the effects of a call\<close>

fun requestsSent :: "Effect list \<Rightarrow> ChatCompletionCreateParams list" where
  "requestsSent [] = []"
| "requestsSent (ChatCompletionsCreate r # es) = r # requestsSent es"
| "requestsSent (_ # es) = requestsSent es"

fun listingCalls :: "Effect list \<Rightarrow> nat" where
  "listingCalls [] = 0"
| "listingCalls (ModelsList # es) = Suc (listingCalls es)"
| "listingCalls (_ # es) = listingCalls es"




subsection \<open>The adapter over its lifetime\<close>

text \<open>
  Every method of the class is \<^verbatim>\<open>async\<close>: a call runs until it awaits, and the rest of it
  runs when the awaited promise settles, after whatever else ran in between. Only two
  awaits are followed by a write of the cache: the one in \<^verbatim>\<open>initializeModelList\<close>,
  started by the constructor, and the one at line 57 of \<^verbatim>\<open>createMessage\<close>. An adapter is
  therefore its handler together with the tasks suspended at one of these two awaits.
\<close>

datatype Task =
    InitializeModelList
  | CreateMessage string "MessageParam list"

record Adapter =
  handler :: OpenAiHandler
  awaiting :: "Task list"

definition newAdapter :: "Externals \<Rightarrow> ApiHandlerOptions \<Rightarrow> Adapter" where
  "newAdapter ext opts = \<lparr>handler = constructor ext opts, awaiting = [InitializeModelList]\<rparr>"

text \<open>
  What can happen to an adapter: a caller calls one of the four public methods, or the
  listing awaited by the \<open>n\<close>-th suspended task settles and that task runs on (the
  transport says what its later SDK calls settle to). A call of \<^verbatim>\<open>createMessage\<close> that
  reaches line 57 is suspended there with its arguments. Every other await of the class
  is followed by no write of a field, so the rest of such a call is part of the same
  step. A step is \<open>None\<close> when it cannot happen: no task \<open>n\<close> is suspended.
\<close>

datatype Step =
    Calls_createMessage Transport string "MessageParam list"
  | Calls_listModels "JsError + ModelsPage"
  | Calls_getModel
  | Calls_getAvailableModels
  | Settles nat "JsError + ModelsPage" Transport

definition resumeTask ::
  "Externals \<Rightarrow> Transport \<Rightarrow> JsError + ModelsPage \<Rightarrow> Task \<Rightarrow> OpenAiHandler \<Rightarrow> OpenAiHandler" where
  "resumeTask ext net settled task h =
     (case task of
        InitializeModelList \<Rightarrow> fst (initializeModelList settled h)
      | CreateMessage systemPrompt msgs \<Rightarrow>
          after (resumeCreateMessage ext net settled h systemPrompt msgs))"

fun step :: "Externals \<Rightarrow> Step \<Rightarrow> Adapter \<Rightarrow> Adapter option" where
  "step ext (Calls_createMessage net systemPrompt msgs) a =
     (if awaitsListModels (handler a)
      then Some (a\<lparr>awaiting := awaiting a @ [CreateMessage systemPrompt msgs]\<rparr>)
      else Some (a\<lparr>handler := after (createMessage ext net (handler a) systemPrompt msgs)\<rparr>))"
| "step ext (Calls_listModels settled) a =
     (case listModels settled of (_, _) \<Rightarrow> Some a)"
| "step ext Calls_getModel a =
     (case getModel ext (handler a) of (_, _) \<Rightarrow> Some a)"
| "step ext Calls_getAvailableModels a =
     (case getAvailableModels (handler a) of _ \<Rightarrow> Some a)"
| "step ext (Settles n settled net) a =
     (if n < length (awaiting a)
      then Some \<lparr>handler = resumeTask ext net settled (awaiting a ! n) (handler a),
                 awaiting = take n (awaiting a) @ drop (Suc n) (awaiting a)\<rparr>
      else None)"

fun run :: "Externals \<Rightarrow> Step list \<Rightarrow> Adapter \<Rightarrow> Adapter option" where
  "run ext [] a = Some a"
| "run ext (s # ss) a = (case step ext s a of None \<Rightarrow> None | Some a' \<Rightarrow> run ext ss a')"

fun isSettles :: "Step \<Rightarrow> bool" where
  "isSettles (Settles _ _ _) = True"
| "isSettles _ = False"

subsection \<open>Concrete inputs\<close>

text \<open>
  Stand-ins for the imports, used only where a definition is evaluated at a concrete
  input: converters that keep each message's text and name its role, the R1 one merging
  neighbouring turns of one role, and constants of the right type.
\<close>

fun roleName :: "Role \<Rightarrow> string" where
  "roleName User = ''user''"
| "roleName Assistant = ''assistant''"

definition plainFormat :: "MessageParam list \<Rightarrow> ChatCompletionMessageParam list" where
  "plainFormat msgs = map (\<lambda>m. ChatMessage (roleName (role m)) (content m)) msgs"

fun mergeTurns :: "ChatCompletionMessageParam list \<Rightarrow> ChatCompletionMessageParam list" where
  "mergeTurns (ChatMessage r1 c1 # ChatMessage r2 c2 # rest) =
     (if r1 = r2 then mergeTurns (ChatMessage r1 (c1 @ '' '' @ c2) # rest)
      else ChatMessage r1 c1 # mergeTurns (ChatMessage r2 c2 # rest))"
| "mergeTurns ms = ms"

definition someExternals :: Externals where
  "someExternals =
     \<lparr>convertToOpenAiMessages = plainFormat,
      convertToR1Format = (\<lambda>msgs. mergeTurns (plainFormat msgs)),
      azureOpenAiDefaultApiVersion = ''2024-08-01-preview'',
      openAiModelInfoSaneDefaults =
        \<lparr>maxTokens = Some (- 1), temperature = Some 0, isR1FormatRequired = Some False\<rparr>\<rparr>"

definition noOptions :: ApiHandlerOptions where
  "noOptions =
     \<lparr>openAiApiKey = None, openAiBaseUrl = None, azureApiVersion = None,
      openAiModelId = None, openAiModelInfo = None, o3MiniReasoningEffort = None\<rparr>"

definition contentChunk :: "string \<Rightarrow> ChatCompletionChunk" where
  "contentChunk s =
     \<lparr>choices = [\<lparr>delta = Some \<lparr>delta_content = Some s, reasoning_content = None\<rparr>\<rparr>],
      usage = None\<rparr>"



definition serving :: "string list \<Rightarrow> ChatCompletionChunk list \<Rightarrow> Transport" where
  "serving ids chunks =
     \<lparr>models_list = Inr (ModelsPage (map Model ids)),
      chat_completions_create = (\<lambda>_. Inr (chunks, None))\<rparr>"

definition unreachable :: Transport where
  "unreachable =
     \<lparr>models_list = Inl (Error ''Connection error.''),
      chat_completions_create = (\<lambda>_. Inl (Error ''Connection error.''))\<rparr>"

definition handlerWith :: "ApiHandlerOptions \<Rightarrow> string list \<Rightarrow> OpenAiHandler" where
  "handlerWith opts cache = (constructor someExternals opts)\<lparr>availableModels := cache\<rparr>"

definition fewTokens :: ApiHandlerOptions where
  "fewTokens =
     noOptions\<lparr>openAiModelId := Some ''gpt-4o'',
       openAiModelInfo :=
         Some \<lparr>maxTokens = Some 4096, temperature = None, isR1FormatRequired = None\<rparr>\<rparr>"

definition gpt4o :: ApiHandlerOptions where
  "gpt4o = noOptions\<lparr>openAiModelId := Some ''gpt-4o''\<rparr>"

definition bothPatterns :: ApiHandlerOptions where
  "bothPatterns = noOptions\<lparr>openAiModelId := Some ''deepseek-reasoner-o3-mini''\<rparr>"

definition deepseek :: ApiHandlerOptions where
  "deepseek = noOptions\<lparr>openAiModelId := Some ''deepseek-reasoner''\<rparr>"

definition emptyChoicesChunk :: ChatCompletionChunk where
  "emptyChoicesChunk =
     \<lparr>choices = [], usage = Some \<lparr>prompt_tokens = Some 7, completion_tokens = None\<rparr>\<rparr>"

definition primed :: Adapter where
  "primed = \<lparr>handler = handlerWith noOptions [''gpt-4o''], awaiting = []\<rparr>"

definition gpt4oPage :: "JsError + ModelsPage" where
  "gpt4oPage = Inr (ModelsPage [Model ''gpt-4o''])"

definition connectionError :: "JsError + ModelsPage" where
  "connectionError = Inl (Error ''Connection error.'')"

subsection \<open>Model resolution as the specification words it\<close>

text \<open>
  Section 4.1, step 1 of the specification: the explicit configured id if present;
  otherwise, with an empty cache, a refresh whose failure leaves the cache empty; then
  the first entry of a non-empty cache; no model when the cache is still empty. An id is
  present when it is a non-empty string.
\<close>

definition spec_refreshed :: "Transport \<Rightarrow> string list" where
  "spec_refreshed net =
     (case models_list net of Inl _ \<Rightarrow> [] | Inr page \<Rightarrow> map model_id (data page))"

definition spec_resolveModelId :: "Transport \<Rightarrow> OpenAiHandler \<Rightarrow> string option" where
  "spec_resolveModelId net h =
     (if truthy (openAiModelId (options h)) then openAiModelId (options h)
      else let cache = (if availableModels h = [] then spec_refreshed net else availableModels h)
           in if cache = [] then None else Some (hd cache))"

section \<open>Properties\<close>

subsection \<open>Strings\<close>

lemma str_includes_iff: "str_includes s p \<longleftrightarrow> (\<exists>pre post. s = pre @ p @ post)"
proof (induction s)
  case Nil
  then show ?case by auto
next
  case (Cons c cs)
  have "(\<exists>pre post. c # cs = pre @ p @ post) \<longleftrightarrow>
        (\<exists>post. c # cs = p @ post) \<or> (\<exists>pre post. cs = pre @ p @ post)"
  proof
    assume "\<exists>pre post. c # cs = pre @ p @ post"
    then obtain pre post where e: "c # cs = pre @ p @ post" by blast
    show "(\<exists>post. c # cs = p @ post) \<or> (\<exists>pre post. cs = pre @ p @ post)"
    proof (cases pre)
      case Nil
      with e show ?thesis by auto
    next
      case (Cons x pre')
      with e have "cs = pre' @ p @ post" by simp
      then show ?thesis by blast
    qed
  next
    assume "(\<exists>post. c # cs = p @ post) \<or> (\<exists>pre post. cs = pre @ p @ post)"
    then show "\<exists>pre post. c # cs = pre @ p @ post"
    proof
      assume "\<exists>post. c # cs = p @ post"
      then obtain post where "c # cs = [] @ p @ post" by auto
      then show ?thesis by blast
    next
      assume "\<exists>pre post. cs = pre @ p @ post"
      then obtain pre post where "cs = pre @ p @ post" by blast
      then have "c # cs = (c # pre) @ p @ post" by simp
      then show ?thesis by blast
    qed
  qed
  with Cons.IH show ?case by (simp add: prefix_def)
qed

lemma isO3Mini_iff: "isO3Mini m \<longleftrightarrow> (\<exists>pre post. m = pre @ ''o3-mini'' @ post)"
  by (simp add: isO3Mini_def str_includes_iff)

lemma isDeepseekReasoner_iff:
  "isDeepseekReasoner m \<longleftrightarrow> (\<exists>pre post. m = pre @ ''deepseek-reasoner'' @ post)"
  by (simp add: isDeepseekReasoner_def str_includes_iff)

subsection \<open>What a call of createMessage does\<close>

lemma requestsSent_append: "requestsSent (xs @ ys) = requestsSent xs @ requestsSent ys"
  by (induction xs rule: requestsSent.induct) simp_all

lemma listingCalls_append: "listingCalls (xs @ ys) = listingCalls xs + listingCalls ys"
  by (induction xs rule: listingCalls.induct) simp_all

lemma sendRequest_effects:
  "effects (sendRequest ext net h sofar m sys msgs) =
     sofar @ [ChatCompletionsCreate (shapeRequest ext (options h) m sys msgs)]"
  by (simp add: sendRequest_def Let_def split: sum.splits prod.splits)

lemma sendRequest_after: "after (sendRequest ext net h sofar m sys msgs) = h"
  by (simp add: sendRequest_def Let_def split: sum.splits prod.splits)

lemma pickCachedModel_after: "after (pickCachedModel ext net h sofar sys msgs) = h"
  by (simp add: pickCachedModel_def sendRequest_after split: list.splits)

lemma pickCachedModel_effects:
  "effects (pickCachedModel ext net h sofar sys msgs) =
     (case availableModels h of
        [] \<Rightarrow> sofar
      | first # _ \<Rightarrow>
          sofar @ [Console (Using_first_available_model first),
                   ChatCompletionsCreate (shapeRequest ext (options h) first sys msgs)])"
  by (simp add: pickCachedModel_def sendRequest_effects split: list.splits)

lemma resumeCreateMessage_after:
  "after (resumeCreateMessage ext net settled h sys msgs) =
     h\<lparr>availableModels :=
         (case settled of Inl _ \<Rightarrow> [] | Inr page \<Rightarrow> map model_id (data page))\<rparr>"
  by (cases settled) (simp_all add: resumeCreateMessage_def listModels_def pickCachedModel_after)

lemma createMessage_after:
  "after (createMessage ext net h sys msgs) =
     (if awaitsListModels h then h\<lparr>availableModels := spec_refreshed net\<rparr> else h)"
  by (simp add: createMessage_def awaitsListModels_def resumeCreateMessage_after
      pickCachedModel_after sendRequest_after spec_refreshed_def)

lemma configuredModelId_truthy:
  "configuredModelId h = [] \<longleftrightarrow> \<not> truthy (openAiModelId (options h))"
  by (cases "openAiModelId (options h)") (simp_all add: configuredModelId_def)

lemma configuredModelId_Some:
  "truthy (openAiModelId (options h)) \<Longrightarrow> openAiModelId (options h) = Some (configuredModelId h)"
  by (cases "openAiModelId (options h)") (simp_all add: configuredModelId_def)

lemma createMessage_requests:
  "requestsSent (effects (createMessage ext net h sys msgs)) =
     (case spec_resolveModelId net h of
        None \<Rightarrow> []
      | Some m \<Rightarrow> [shapeRequest ext (options h) m sys msgs])"
proof (cases "truthy (openAiModelId (options h))")
  case True
  then have "spec_resolveModelId net h = Some (configuredModelId h)"
    by (cases "openAiModelId (options h)")
      (simp_all add: spec_resolveModelId_def configuredModelId_def)
  with True show ?thesis
    by (simp add: createMessage_def configuredModelId_truthy sendRequest_effects)
next
  case False
  show ?thesis
  proof (cases "availableModels h")
    case (Cons first rest)
    with False show ?thesis
      by (simp add: createMessage_def configuredModelId_truthy spec_resolveModelId_def
          pickCachedModel_effects)
  next
    case Nil
    with False show ?thesis
      by (cases "models_list net")
        (simp_all add: createMessage_def configuredModelId_truthy spec_resolveModelId_def
          spec_refreshed_def resumeCreateMessage_def listModels_def pickCachedModel_effects
          split: list.splits)
  qed
qed

lemma resumeCreateMessage_requests:
  "requestsSent (effects (resumeCreateMessage ext net settled h sys msgs)) =
     (case settled of
        Inl _ \<Rightarrow> []
      | Inr page \<Rightarrow>
          (case map model_id (data page) of
             [] \<Rightarrow> []
           | first # _ \<Rightarrow> [shapeRequest ext (options h) first sys msgs]))"
  by (cases settled)
    (simp_all add: resumeCreateMessage_def listModels_def pickCachedModel_effects
      split: list.splits)

lemma createMessage_awaits:
  "awaitsListModels h \<Longrightarrow>
     createMessage ext net h sys msgs =
       resumeCreateMessage ext net (models_list net) h sys msgs"
  by (simp add: createMessage_def awaitsListModels_def)

lemma model_shapeRequest: "model (shapeRequest ext opts m sys msgs) = m"
  by (simp add: shapeRequest_def Let_def)


lemma createMessage_thrown_no_models:
  "spec_resolveModelId net h = None \<Longrightarrow>
     thrown (createMessage ext net h sys msgs) =
       Some (Error ''No models available from the OpenAI-compatible server'') \<and>
     yielded (createMessage ext net h sys msgs) = []"
  by (cases "models_list net")
    (auto simp add: spec_resolveModelId_def createMessage_def configuredModelId_truthy
      spec_refreshed_def resumeCreateMessage_def listModels_def pickCachedModel_def Let_def
      split: if_splits list.splits)

lemma createMessage_listingCalls:
  "listingCalls (effects (createMessage ext net h sys msgs)) =
     (if awaitsListModels h then 1 else 0)"
  by (cases "models_list net")
    (simp_all add: createMessage_def awaitsListModels_def resumeCreateMessage_def
      listModels_def pickCachedModel_effects sendRequest_effects listingCalls_append
      split: list.splits)

lemma max_tokens_shapeRequest:
  "max_tokens (shapeRequest ext opts m sys msgs) = resolveMaxTokens opts"
  by (simp add: shapeRequest_def Let_def)

lemma requestsSent_shaped:
  "r \<in> set (requestsSent (effects (createMessage ext net h sys msgs))) \<Longrightarrow>
     r = shapeRequest ext (options h) (model r) sys msgs"
  by (auto simp add: createMessage_requests model_shapeRequest split: option.splits)

lemma shapeRequest_o3:
  "isO3Mini m \<Longrightarrow>
     shapeRequest ext opts m sys msgs =
       \<lparr>model = m,
        messages = ChatMessage ''developer'' sys # convertToOpenAiMessages ext msgs,
        sampling_temperature = None, max_tokens = resolveMaxTokens opts,
        reasoning_effort = Some (orElse (o3MiniReasoningEffort opts) ''medium''),
        stream = True, include_usage = True\<rparr>"
  by (simp add: shapeRequest_def Let_def)

lemma shapeRequest_r1:
  "\<not> isO3Mini m \<Longrightarrow> isDeepseekReasoner m \<or> r1FormatRequired opts \<Longrightarrow>
     messages (shapeRequest ext opts m sys msgs) =
       convertToR1Format ext (MessageParam User sys # msgs)"
  by (simp add: shapeRequest_def Let_def)

lemma orElse_case:
  "orElse v d = (case v of None \<Rightarrow> d | Some x \<Rightarrow> if x = [] then d else x)"
  by (cases v) simp_all

lemma both_o3: "isO3Mini ''deepseek-reasoner-o3-mini''"
  by (simp add: isO3Mini_def)

lemma both_deepseek: "isDeepseekReasoner ''deepseek-reasoner-o3-mini''"
  by (simp add: isDeepseekReasoner_def)

lemma sent_configured:
  "openAiModelId opts = Some m \<Longrightarrow> m \<noteq> [] \<Longrightarrow>
     requestsSent (effects (createMessage ext net (handlerWith opts cache) sys msgs)) =
       [shapeRequest ext opts m sys msgs]"
  by (simp add: createMessage_requests spec_resolveModelId_def handlerWith_def constructor_def)

subsection \<open>The events of a chunk\<close>

lemma orZero_case: "orZero n = (case n of None \<Rightarrow> 0 | Some k \<Rightarrow> k)"
  by (simp add: orZero_def split: option.splits)










lemma forAwait_concat: "forAwait chunks = concat (map chunkEvents chunks)"
  by (induction chunks) simp_all

lemma forAwait_append: "forAwait (xs @ ys) = forAwait xs @ forAwait ys"
  by (simp add: forAwait_concat)

lemma sendRequest_delivered:
  "chat_completions_create net (shapeRequest ext (options h) m sys msgs) = Inr (chunks, broken) \<Longrightarrow>
     yielded (sendRequest ext net h sofar m sys msgs) = forAwait chunks \<and>
     thrown (sendRequest ext net h sofar m sys msgs) = broken"
  by (simp add: sendRequest_def Let_def)

lemma createMessage_configured:
  "truthy (openAiModelId (options h)) \<Longrightarrow>
     createMessage ext net h sys msgs = sendRequest ext net h [] (configuredModelId h) sys msgs"
  by (simp add: createMessage_def configuredModelId_truthy)

subsection \<open>The events and the end of a call\<close>

lemma sendRequest_outcome:
  "yielded (sendRequest ext net h sofar m sys msgs) =
     (case chat_completions_create net (shapeRequest ext (options h) m sys msgs) of
        Inl e \<Rightarrow> []
      | Inr (chunks, broken) \<Rightarrow> concat (map chunkEvents chunks))"
  "thrown (sendRequest ext net h sofar m sys msgs) =
     (case chat_completions_create net (shapeRequest ext (options h) m sys msgs) of
        Inl e \<Rightarrow> Some e
      | Inr (chunks, broken) \<Rightarrow> broken)"
  by (simp_all add: sendRequest_def Let_def forAwait_concat split: sum.splits prod.splits)

lemma pickCachedModel_outcome:
  "yielded (pickCachedModel ext net h sofar sys msgs) =
     (case availableModels h of
        [] \<Rightarrow> []
      | first # _ \<Rightarrow> yielded (sendRequest ext net h [] first sys msgs))"
  "thrown (pickCachedModel ext net h sofar sys msgs) =
     (case availableModels h of
        [] \<Rightarrow> Some (Error ''No models available from the OpenAI-compatible server'')
      | first # _ \<Rightarrow> thrown (sendRequest ext net h [] first sys msgs))"
  by (simp_all add: pickCachedModel_def sendRequest_outcome split: list.splits)

lemma createMessage_resolved:
  "spec_resolveModelId net h = Some m \<Longrightarrow>
     yielded (createMessage ext net h sys msgs) = yielded (sendRequest ext net h [] m sys msgs) \<and>
     thrown (createMessage ext net h sys msgs) = thrown (sendRequest ext net h [] m sys msgs)"
proof (cases "truthy (openAiModelId (options h))")
  case True
  assume r: "spec_resolveModelId net h = Some m"
  from True have "spec_resolveModelId net h = Some (configuredModelId h)"
    by (cases "openAiModelId (options h)")
      (simp_all add: spec_resolveModelId_def configuredModelId_def)
  with r have "configuredModelId h = m" by simp
  with True show ?thesis
    by (simp add: createMessage_configured)
next
  case False
  assume r: "spec_resolveModelId net h = Some m"
  show ?thesis
  proof (cases "availableModels h")
    case (Cons first rest)
    with False r show ?thesis
      by (simp add: createMessage_def configuredModelId_truthy spec_resolveModelId_def
          pickCachedModel_outcome)
  next
    case Nil
    with False r show ?thesis
      by (cases "models_list net")
        (auto simp add: createMessage_def configuredModelId_truthy spec_resolveModelId_def
          spec_refreshed_def resumeCreateMessage_def listModels_def pickCachedModel_outcome
          sendRequest_outcome Let_def split: list.splits if_splits)
  qed
qed

lemma createMessage_outcome:
  "yielded (createMessage ext net h sys msgs) =
     (case spec_resolveModelId net h of
        None \<Rightarrow> []
      | Some m \<Rightarrow>
          (case chat_completions_create net (shapeRequest ext (options h) m sys msgs) of
             Inl e \<Rightarrow> []
           | Inr (chunks, broken) \<Rightarrow> concat (map chunkEvents chunks)))"
  "thrown (createMessage ext net h sys msgs) =
     (case spec_resolveModelId net h of
        None \<Rightarrow> Some (Error ''No models available from the OpenAI-compatible server'')
      | Some m \<Rightarrow>
          (case chat_completions_create net (shapeRequest ext (options h) m sys msgs) of
             Inl e \<Rightarrow> Some e
           | Inr (chunks, broken) \<Rightarrow> broken))"
proof -
  show "yielded (createMessage ext net h sys msgs) =
     (case spec_resolveModelId net h of
        None \<Rightarrow> []
      | Some m \<Rightarrow>
          (case chat_completions_create net (shapeRequest ext (options h) m sys msgs) of
             Inl e \<Rightarrow> []
           | Inr (chunks, broken) \<Rightarrow> concat (map chunkEvents chunks)))"
  proof (cases "spec_resolveModelId net h")
    case None
    then show ?thesis by (simp add: createMessage_thrown_no_models)
  next
    case (Some m)
    with createMessage_resolved [OF Some, of ext sys msgs] show ?thesis
      by (simp add: sendRequest_outcome)
  qed
  show "thrown (createMessage ext net h sys msgs) =
     (case spec_resolveModelId net h of
        None \<Rightarrow> Some (Error ''No models available from the OpenAI-compatible server'')
      | Some m \<Rightarrow>
          (case chat_completions_create net (shapeRequest ext (options h) m sys msgs) of
             Inl e \<Rightarrow> Some e
           | Inr (chunks, broken) \<Rightarrow> broken))"
  proof (cases "spec_resolveModelId net h")
    case None
    then show ?thesis by (simp add: createMessage_thrown_no_models)
  next
    case (Some m)
    with createMessage_resolved [OF Some, of ext sys msgs] show ?thesis
      by (simp add: sendRequest_outcome)
  qed
qed

lemma createMessage_delivered:
  "spec_resolveModelId net h = Some m \<Longrightarrow>
   chat_completions_create net (shapeRequest ext (options h) m sys msgs) = Inr (chunks, broken) \<Longrightarrow>
     yielded (createMessage ext net h sys msgs) = concat (map chunkEvents chunks) \<and>
     thrown (createMessage ext net h sys msgs) = broken"
  by (simp add: createMessage_outcome)

subsection \<open>Steps of an adapter whose cache is not empty\<close>

lemma step_call_nonempty:
  "availableModels (handler a) \<noteq> [] \<Longrightarrow> \<not> isSettles s \<Longrightarrow> step ext s a = Some a"
  by (cases s) (simp_all add: awaitsListModels_def createMessage_after split: prod.splits)

lemma step_settles_none: "awaiting a = [] \<Longrightarrow> isSettles s \<Longrightarrow> step ext s a = None"
  by (cases s) simp_all

lemma run_settled:
  "awaiting a = [] \<Longrightarrow> availableModels (handler a) \<noteq> [] \<Longrightarrow>
     run ext steps a = (if list_ex isSettles steps then None else Some a)"
proof (induction steps)
  case Nil
  show ?case by simp
next
  case (Cons s steps)
  show ?case
  proof (cases "isSettles s")
    case True
    with Cons.prems show ?thesis by (simp add: step_settles_none)
  next
    case False
    with Cons show ?thesis by (simp add: step_call_nonempty)
  qed
qed

lemma resumeTask_cache:
  "availableModels (resumeTask ext net settled task h) =
     (case settled of Inl _ \<Rightarrow> [] | Inr page \<Rightarrow> map model_id (data page))"
proof (cases task)
  case InitializeModelList
  then show ?thesis
    by (cases settled) (simp_all add: resumeTask_def initializeModelList_def listModels_def)
next
  case (CreateMessage sys msgs)
  then show ?thesis
    by (cases settled) (simp_all add: resumeTask_def resumeCreateMessage_after)
qed

lemma step_call_any:
  "step ext (Calls_listModels settled) a = Some a"
  "step ext Calls_getModel a = Some a"
  "step ext Calls_getAvailableModels a = Some a"
  by (simp_all split: prod.splits)

subsection \<open>Listing models\<close>

text \<open>
  Claim C7. The promise of \<^verbatim>\<open>listModels\<close> always resolves and never rejects: to the ids
  of the listed models, in the order of the page, when the listing call succeeds, and to
  the empty list when the listing call fails.
\<close>

theorem listModels_never_raises:
  "fst (listModels settled) =
     Inr (case settled of Inr response \<Rightarrow> map model_id (data response) | Inl error \<Rightarrow> [])"
  by (cases settled) (simp_all add: listModels_def)

subsection \<open>The client chosen by the constructor\<close>

text \<open>
  Claim C5. The constructor builds the Azure client exactly when an API version is
  configured (a non-empty string) or the base URL, lower-cased, contains \<^verbatim>\<open>azure.com\<close>;
  its API version is the configured one, or the default version of shared/api when none
  is configured. In every other case it builds the standard client. Both get the
  configured base URL and the API key, the empty string standing for a missing key.
\<close>

theorem constructor_selects_client:
  "client (constructor ext opts) =
     (if truthy (azureApiVersion opts) \<or>
         (\<exists>url pre post. openAiBaseUrl opts = Some url \<and>
            toLowerCase url = pre @ ''azure.com'' @ post)
      then AzureOpenAI (openAiBaseUrl opts) (orElse (openAiApiKey opts) [])
             (case azureApiVersion opts of
                None \<Rightarrow> azureOpenAiDefaultApiVersion ext
              | Some v \<Rightarrow> if v = [] then azureOpenAiDefaultApiVersion ext else v)
      else OpenAI (openAiBaseUrl opts) (orElse (openAiApiKey opts) []))"
proof -
  have az: "isAzure opts \<longleftrightarrow> truthy (azureApiVersion opts) \<or>
         (\<exists>url pre post. openAiBaseUrl opts = Some url \<and>
            toLowerCase url = pre @ ''azure.com'' @ post)"
    by (cases "openAiBaseUrl opts") (simp_all add: isAzure_def str_includes_iff)
  have v: "orElse v d = (case v of None \<Rightarrow> d | Some x \<Rightarrow> if x = [] then d else x)"
    for v d
    by (cases v) simp_all
  show ?thesis
    unfolding constructor_def newClient_def Let_def az v [of "azureApiVersion opts"] by simp
qed

lemma constructor_azure_url_example:
  "client (constructor someExternals
       (noOptions\<lparr>openAiBaseUrl := Some ''https://my.openai.AZURE.com''\<rparr>)) =
     AzureOpenAI (Some ''https://my.openai.AZURE.com'') [] ''2024-08-01-preview''"
  by (simp add: constructor_def newClient_def isAzure_def noOptions_def someExternals_def
      toLowerCase_def toLowerCase_char_def)

lemma constructor_azure_version_example:
  "client (constructor someExternals
       (noOptions\<lparr>openAiBaseUrl := Some ''https://gateway.example'',
          azureApiVersion := Some ''2023-05-15'', openAiApiKey := Some ''k''\<rparr>)) =
     AzureOpenAI (Some ''https://gateway.example'') ''k'' ''2023-05-15''"
  by (simp add: constructor_def newClient_def isAzure_def noOptions_def)

lemma constructor_standard_example:
  "client (constructor someExternals
       (noOptions\<lparr>openAiBaseUrl := Some ''https://api.openai.com/v1''\<rparr>)) =
     OpenAI (Some ''https://api.openai.com/v1'') []"
  by (simp add: constructor_def newClient_def isAzure_def noOptions_def
      toLowerCase_def toLowerCase_char_def)

subsection \<open>Resolving the model id\<close>

text \<open>
  Claim C1. A call of \<^verbatim>\<open>createMessage\<close> resolves its model id as the specification says
  (\<open>spec_resolveModelId\<close>): a configured non-empty id is used; otherwise an empty cache
  is refreshed by exactly one listing call, a failed listing counting as an empty one,
  and the first entry of the cache is used. With a model resolved, exactly one
  chat-completion request is sent, for that id. With none, the call throws the
  "No models available" error, yields nothing and sends no chat-completion request. No
  listing call is made unless no id is configured and the cache is empty.
\<close>

theorem createMessage_resolves_model:
  "(case spec_resolveModelId net h of
      Some m \<Rightarrow>
        requestsSent (effects (createMessage ext net h sys msgs)) =
          [shapeRequest ext (options h) m sys msgs] \<and>
        model (shapeRequest ext (options h) m sys msgs) = m
    | None \<Rightarrow>
        requestsSent (effects (createMessage ext net h sys msgs)) = [] \<and>
        yielded (createMessage ext net h sys msgs) = [] \<and>
        thrown (createMessage ext net h sys msgs) =
          Some (Error ''No models available from the OpenAI-compatible server'')) \<and>
   listingCalls (effects (createMessage ext net h sys msgs)) =
     (if \<not> truthy (openAiModelId (options h)) \<and> availableModels h = [] then 1 else 0)"
proof (cases "spec_resolveModelId net h")
  case None
  then show ?thesis
    using createMessage_thrown_no_models [OF None, of ext sys msgs]
    by (simp add: createMessage_requests createMessage_listingCalls awaitsListModels_def
        configuredModelId_truthy)
next
  case (Some m)
  then show ?thesis
    by (simp add: createMessage_requests createMessage_listingCalls awaitsListModels_def
        configuredModelId_truthy model_shapeRequest)
qed

lemma createMessage_first_listed_example:
  "map model (requestsSent (effects
     (createMessage someExternals (serving [''llama-3'', ''qwen-2''] []) (handlerWith noOptions [])
        ''Be brief.'' []))) = [''llama-3'']"
  by (simp add: createMessage_requests spec_resolveModelId_def spec_refreshed_def serving_def
      handlerWith_def constructor_def noOptions_def model_shapeRequest)

lemma createMessage_unreachable_example:
  "thrown (createMessage someExternals unreachable (handlerWith noOptions []) ''Be brief.'' []) =
     Some (Error ''No models available from the OpenAI-compatible server'') \<and>
   requestsSent (effects
     (createMessage someExternals unreachable (handlerWith noOptions []) ''Be brief.'' [])) = []"
proof -
  have "spec_resolveModelId unreachable (handlerWith noOptions []) = None"
    by (simp add: spec_resolveModelId_def spec_refreshed_def unreachable_def handlerWith_def
        constructor_def noOptions_def)
  then show ?thesis
    by (simp add: createMessage_thrown_no_models createMessage_requests)
qed

subsection \<open>The limit on output tokens\<close>

text \<open>
  Claim C6. Every chat-completion request a call sends carries \<^verbatim>\<open>max_tokens\<close> equal to
  the \<^verbatim>\<open>maxTokens\<close> of the configured model information when that is a positive number,
  and carries none when it is zero, negative or missing, or when no model information
  is configured.
\<close>

theorem max_tokens_forwarded:
  "r \<in> set (requestsSent (effects (createMessage ext net h sys msgs))) \<Longrightarrow>
     max_tokens r =
       (case openAiModelInfo (options h) of
          None \<Rightarrow> None
        | Some info \<Rightarrow>
            (case maxTokens info of
               None \<Rightarrow> None
             | Some n \<Rightarrow> if 0 < n then Some n else None))"
proof -
  assume "r \<in> set (requestsSent (effects (createMessage ext net h sys msgs)))"
  then have "r = shapeRequest ext (options h) (model r) sys msgs"
    by (rule requestsSent_shaped)
  then have "max_tokens r = resolveMaxTokens (options h)"
    using max_tokens_shapeRequest [of ext "options h" "model r" sys msgs] by simp
  then show ?thesis
    by (auto simp add: resolveMaxTokens_def split: option.splits)
qed

theorem max_tokens_forwarded_witness:
  "shapeRequest someExternals fewTokens ''gpt-4o'' ''Be brief.'' []
     \<in> set (requestsSent (effects
          (createMessage someExternals (serving [] []) (handlerWith fewTokens [])
             ''Be brief.'' []))) \<and>
   max_tokens (shapeRequest someExternals fewTokens ''gpt-4o'' ''Be brief.'' []) = Some 4096"
proof -
  have sent: "shapeRequest someExternals fewTokens ''gpt-4o'' ''Be brief.'' []
     \<in> set (requestsSent (effects
          (createMessage someExternals (serving [] []) (handlerWith fewTokens [])
             ''Be brief.'' [])))"
    by (simp add: createMessage_requests spec_resolveModelId_def handlerWith_def
        constructor_def fewTokens_def noOptions_def)
  from max_tokens_forwarded [OF sent] sent show ?thesis
    by (simp add: handlerWith_def constructor_def fewTokens_def noOptions_def)
qed

subsection \<open>Shaping for o3-mini\<close>

text \<open>
  Claim C3. Every chat-completion request sent for a model id that contains \<^verbatim>\<open>o3-mini\<close>
  has no temperature, has the system prompt as a message of role \<^verbatim>\<open>developer\<close> followed
  by the converted conversation, and has the reasoning effort of the configuration, or
  \<^verbatim>\<open>medium\<close> when none (or an empty one) is configured. Nothing is assumed about the
  DeepSeek pattern or the R1 flag: the witness is an id that matches both patterns.
\<close>

theorem o3_mini_shaping:
  "r \<in> set (requestsSent (effects (createMessage ext net h sys msgs))) \<Longrightarrow>
   isO3Mini (model r) \<Longrightarrow>
     sampling_temperature r = None \<and>
     messages r = ChatMessage ''developer'' sys # convertToOpenAiMessages ext msgs \<and>
     reasoning_effort r =
       Some (case o3MiniReasoningEffort (options h) of
               None \<Rightarrow> ''medium''
             | Some e \<Rightarrow> if e = [] then ''medium'' else e)"
proof -
  assume sent: "r \<in> set (requestsSent (effects (createMessage ext net h sys msgs)))"
    and o3: "isO3Mini (model r)"
  from sent have "r = shapeRequest ext (options h) (model r) sys msgs"
    by (rule requestsSent_shaped)
  with shapeRequest_o3 [OF o3, of ext "options h" sys msgs]
  have "r = \<lparr>model = model r,
        messages = ChatMessage ''developer'' sys # convertToOpenAiMessages ext msgs,
        sampling_temperature = None, max_tokens = resolveMaxTokens (options h),
        reasoning_effort = Some (orElse (o3MiniReasoningEffort (options h)) ''medium''),
        stream = True, include_usage = True\<rparr>"
    by simp
  then have "sampling_temperature r = None"
    and "messages r = ChatMessage ''developer'' sys # convertToOpenAiMessages ext msgs"
    and "reasoning_effort r = Some (orElse (o3MiniReasoningEffort (options h)) ''medium'')"
    by (metis ChatCompletionCreateParams.select_convs(3),
        metis ChatCompletionCreateParams.select_convs(2),
        metis ChatCompletionCreateParams.select_convs(5))
  then show ?thesis
    by (simp add: orElse_case)
qed

theorem o3_mini_shaping_witness:
  "shapeRequest someExternals bothPatterns ''deepseek-reasoner-o3-mini'' ''Be brief.''
       [MessageParam User ''Hi'']
     \<in> set (requestsSent (effects
          (createMessage someExternals (serving [] []) (handlerWith bothPatterns [])
             ''Be brief.'' [MessageParam User ''Hi'']))) \<and>
   isO3Mini ''deepseek-reasoner-o3-mini'' \<and>
   isDeepseekReasoner ''deepseek-reasoner-o3-mini'' \<and>
   sampling_temperature
     (shapeRequest someExternals bothPatterns ''deepseek-reasoner-o3-mini'' ''Be brief.''
        [MessageParam User ''Hi'']) = None \<and>
   messages
     (shapeRequest someExternals bothPatterns ''deepseek-reasoner-o3-mini'' ''Be brief.''
        [MessageParam User ''Hi'']) =
     [ChatMessage ''developer'' ''Be brief.'', ChatMessage ''user'' ''Hi''] \<and>
   reasoning_effort
     (shapeRequest someExternals bothPatterns ''deepseek-reasoner-o3-mini'' ''Be brief.''
        [MessageParam User ''Hi'']) = Some ''medium''"
proof -
  let ?r = "shapeRequest someExternals bothPatterns ''deepseek-reasoner-o3-mini'' ''Be brief.''
       [MessageParam User ''Hi'']"
  have sent: "?r \<in> set (requestsSent (effects
          (createMessage someExternals (serving [] []) (handlerWith bothPatterns [])
             ''Be brief.'' [MessageParam User ''Hi''])))"
    by (simp add: sent_configured bothPatterns_def noOptions_def)
  have o3: "isO3Mini (model ?r)"
    by (simp add: model_shapeRequest both_o3)
  from o3_mini_shaping [OF sent o3] sent both_o3 both_deepseek show ?thesis
    by (simp add: handlerWith_def constructor_def bothPatterns_def noOptions_def
        someExternals_def plainFormat_def)
qed

subsection \<open>Reshaping for DeepSeek reasoner and the R1 flag\<close>

text \<open>
  Claim C4, as stated, fails: for the configured id \<^verbatim>\<open>deepseek-reasoner-o3-mini\<close>, which
  matches the DeepSeek pattern, the request is sent with the developer-role layout of
  lines 93-94 and not with the reshaped list of line 90.
\<close>

theorem r1_claim_counterexample:
  "shapeRequest someExternals bothPatterns ''deepseek-reasoner-o3-mini'' ''Be brief.''
       [MessageParam User ''Hi'']
     \<in> set (requestsSent (effects
          (createMessage someExternals (serving [] []) (handlerWith bothPatterns [])
             ''Be brief.'' [MessageParam User ''Hi'']))) \<and>
   isDeepseekReasoner
     (model (shapeRequest someExternals bothPatterns ''deepseek-reasoner-o3-mini'' ''Be brief.''
        [MessageParam User ''Hi''])) \<and>
   messages
     (shapeRequest someExternals bothPatterns ''deepseek-reasoner-o3-mini'' ''Be brief.''
        [MessageParam User ''Hi'']) =
     [ChatMessage ''developer'' ''Be brief.'', ChatMessage ''user'' ''Hi''] \<and>
   convertToR1Format someExternals [MessageParam User ''Be brief.'', MessageParam User ''Hi''] =
     [ChatMessage ''user'' ''Be brief. Hi''] \<and>
   messages
     (shapeRequest someExternals bothPatterns ''deepseek-reasoner-o3-mini'' ''Be brief.''
        [MessageParam User ''Hi'']) \<noteq>
     convertToR1Format someExternals (MessageParam User ''Be brief.'' # [MessageParam User ''Hi''])"
proof -
  have sent: "shapeRequest someExternals bothPatterns ''deepseek-reasoner-o3-mini'' ''Be brief.''
       [MessageParam User ''Hi'']
     \<in> set (requestsSent (effects
          (createMessage someExternals (serving [] []) (handlerWith bothPatterns [])
             ''Be brief.'' [MessageParam User ''Hi''])))"
    by (simp add: sent_configured bothPatterns_def noOptions_def)
  have msgs: "messages
     (shapeRequest someExternals bothPatterns ''deepseek-reasoner-o3-mini'' ''Be brief.''
        [MessageParam User ''Hi'']) =
     [ChatMessage ''developer'' ''Be brief.'', ChatMessage ''user'' ''Hi'']"
    by (simp add: shapeRequest_o3 [OF both_o3] someExternals_def plainFormat_def)
  have r1: "convertToR1Format someExternals
       [MessageParam User ''Be brief.'', MessageParam User ''Hi''] =
     [ChatMessage ''user'' ''Be brief. Hi'']"
    by (simp add: someExternals_def plainFormat_def)
  from sent msgs r1 both_deepseek show ?thesis
    by (simp add: model_shapeRequest)
qed

text \<open>
  Claim C4, amended. Every chat-completion request sent for a model id that contains
  \<^verbatim>\<open>deepseek-reasoner\<close>, or sent while the model information requires the R1 format,
  carries the result of the R1 converter on the conversation with the system prompt as
  a leading user message, unless the id also contains \<^verbatim>\<open>o3-mini\<close>: then it carries the
  developer-role layout.
\<close>

theorem r1_reshaping:
  "r \<in> set (requestsSent (effects (createMessage ext net h sys msgs))) \<Longrightarrow>
   isDeepseekReasoner (model r) \<or> r1FormatRequired (options h) \<Longrightarrow>
     messages r =
       (if isO3Mini (model r)
        then ChatMessage ''developer'' sys # convertToOpenAiMessages ext msgs
        else convertToR1Format ext (MessageParam User sys # msgs))"
proof -
  assume sent: "r \<in> set (requestsSent (effects (createMessage ext net h sys msgs)))"
    and r1: "isDeepseekReasoner (model r) \<or> r1FormatRequired (options h)"
  from sent have r: "r = shapeRequest ext (options h) (model r) sys msgs"
    by (rule requestsSent_shaped)
  show ?thesis
  proof (cases "isO3Mini (model r)")
    case True
    have "messages (shapeRequest ext (options h) (model r) sys msgs) =
        ChatMessage ''developer'' sys # convertToOpenAiMessages ext msgs"
      by (simp add: shapeRequest_o3 [OF True])
    with r True show ?thesis by simp
  next
    case False
    from shapeRequest_r1 [OF False r1, of ext sys msgs] r False show ?thesis by simp
  qed
qed

theorem r1_reshaping_witness:
  "shapeRequest someExternals deepseek ''deepseek-reasoner'' ''Be brief.''
       [MessageParam User ''Hi'', MessageParam Assistant ''Hello'']
     \<in> set (requestsSent (effects
          (createMessage someExternals (serving [] []) (handlerWith deepseek [])
             ''Be brief.'' [MessageParam User ''Hi'', MessageParam Assistant ''Hello'']))) \<and>
   isDeepseekReasoner ''deepseek-reasoner'' \<and>
   \<not> isO3Mini ''deepseek-reasoner'' \<and>
   messages
     (shapeRequest someExternals deepseek ''deepseek-reasoner'' ''Be brief.''
        [MessageParam User ''Hi'', MessageParam Assistant ''Hello'']) =
     [ChatMessage ''user'' ''Be brief. Hi'', ChatMessage ''assistant'' ''Hello'']"
proof -
  let ?r = "shapeRequest someExternals deepseek ''deepseek-reasoner'' ''Be brief.''
       [MessageParam User ''Hi'', MessageParam Assistant ''Hello'']"
  have sent: "?r \<in> set (requestsSent (effects
          (createMessage someExternals (serving [] []) (handlerWith deepseek [])
             ''Be brief.'' [MessageParam User ''Hi'', MessageParam Assistant ''Hello''])))"
    by (simp add: sent_configured deepseek_def noOptions_def)
  have ds: "isDeepseekReasoner ''deepseek-reasoner''"
    by (simp add: isDeepseekReasoner_def)
  have no3: "\<not> isO3Mini ''deepseek-reasoner''"
    by (simp add: isO3Mini_def)
  have pat: "isDeepseekReasoner (model ?r) \<or> r1FormatRequired (options (handlerWith deepseek []))"
    by (simp add: model_shapeRequest ds)
  from r1_reshaping [OF sent pat] sent ds no3 show ?thesis
    by (simp add: model_shapeRequest someExternals_def plainFormat_def)
qed

subsection \<open>The events of the response stream\<close>


subsection \<open>A call with a configured model id\<close>

text \<open>
  Claim C9. When a non-empty model id is configured, a call of \<^verbatim>\<open>createMessage\<close> makes
  no listing call and leaves the cache as it was; the call never suspends at the
  listing of line 57, so it leaves the adapter as it was, whatever else is suspended.
\<close>

theorem explicit_model_frame:
  "openAiModelId (options h) = Some m \<Longrightarrow> m \<noteq> [] \<Longrightarrow>
     listingCalls (effects (createMessage ext net h sys msgs)) = 0 \<and>
     availableModels (after (createMessage ext net h sys msgs)) = availableModels h \<and>
     step ext (Calls_createMessage net sys msgs) \<lparr>handler = h, awaiting = ts\<rparr> =
       Some \<lparr>handler = h, awaiting = ts\<rparr>"
proof -
  assume "openAiModelId (options h) = Some m" and "m \<noteq> []"
  then have no: "\<not> awaitsListModels h"
    by (simp add: awaitsListModels_def configuredModelId_def)
  then show ?thesis
    by (simp add: createMessage_listingCalls createMessage_after)
qed

theorem explicit_model_frame_witness:
  "openAiModelId (options (handlerWith gpt4o [])) = Some ''gpt-4o'' \<and>
   listingCalls (effects
     (createMessage someExternals unreachable (handlerWith gpt4o []) ''Be brief.'' [])) = 0 \<and>
   availableModels (after
     (createMessage someExternals unreachable (handlerWith gpt4o []) ''Be brief.'' [])) = []"
proof -
  have cfg: "openAiModelId (options (handlerWith gpt4o [])) = Some ''gpt-4o''"
    by (simp add: handlerWith_def constructor_def gpt4o_def)
  have ne: "''gpt-4o'' \<noteq> []" by simp
  from explicit_model_frame [OF cfg ne, of someExternals unreachable "''Be brief.''" "[]"] cfg
  show ?thesis
    by (simp add: handlerWith_def)
qed

subsection \<open>Chunks without a delta\<close>

text \<open>
  Claim C10. A chunk with no choices, or whose first choice has no delta, produces no
  text and no reasoning event: its events are the usage event when it has usage totals
  and nothing otherwise. Such a chunk does not end the call: whichever way the model id
  of a call of \<^verbatim>\<open>createMessage\<close> was resolved (configured, cached or listed), the call
  yields the events of the chunks before it, then its own, then those of the chunks
  after it, and throws only what the stream itself throws.
\<close>

theorem chunk_without_delta:
  "choices c = [] \<or> (\<exists>ch rest. choices c = ch # rest \<and> delta ch = None) \<Longrightarrow>
   spec_resolveModelId net h = Some m \<Longrightarrow>
   chat_completions_create net (shapeRequest ext (options h) m sys msgs) =
     Inr (before @ c # later, broken) \<Longrightarrow>
     chunkEvents c =
       (case usage c of
          None \<Rightarrow> []
        | Some u \<Rightarrow>
            [ApiStreamUsageChunk (case prompt_tokens u of None \<Rightarrow> 0 | Some k \<Rightarrow> k)
               (case completion_tokens u of None \<Rightarrow> 0 | Some k \<Rightarrow> k)]) \<and>
     yielded (createMessage ext net h sys msgs) =
       forAwait before @ chunkEvents c @ forAwait later \<and>
     thrown (createMessage ext net h sys msgs) = broken \<and>
     yielded (sendRequest ext net h sofar m sys msgs) =
       forAwait before @ chunkEvents c @ forAwait later \<and>
     thrown (sendRequest ext net h sofar m sys msgs) = broken"
proof -
  assume nodelta: "choices c = [] \<or> (\<exists>ch rest. choices c = ch # rest \<and> delta ch = None)"
    and resolved: "spec_resolveModelId net h = Some m"
    and str: "chat_completions_create net (shapeRequest ext (options h) m sys msgs) =
     Inr (before @ c # later, broken)"
  from nodelta have "firstDelta c = None"
    by (auto simp add: firstDelta_def)
  then have ev: "chunkEvents c =
       (case usage c of
          None \<Rightarrow> []
        | Some u \<Rightarrow>
            [ApiStreamUsageChunk (case prompt_tokens u of None \<Rightarrow> 0 | Some k \<Rightarrow> k)
               (case completion_tokens u of None \<Rightarrow> 0 | Some k \<Rightarrow> k)])"
    by (cases "usage c")
      (simp_all add: chunkEvents_def textEvents_def reasoningEvents_def usageEvents_def
        orZero_case)
  have split: "concat (map chunkEvents (before @ c # later)) =
      forAwait before @ chunkEvents c @ forAwait later"
    by (simp add: forAwait_concat)
  have whole: "yielded (createMessage ext net h sys msgs) =
       forAwait before @ chunkEvents c @ forAwait later"
    "thrown (createMessage ext net h sys msgs) = broken"
    using createMessage_delivered [OF resolved str] split by simp_all
  have tail: "yielded (sendRequest ext net h sofar m sys msgs) =
       forAwait before @ chunkEvents c @ forAwait later"
    "thrown (sendRequest ext net h sofar m sys msgs) = broken"
    using sendRequest_delivered [OF str, of sofar] split by (simp_all add: forAwait_concat)
  show ?thesis
    by (intro conjI) (rule ev whole tail)+
qed

theorem chunk_without_delta_witness:
  "choices emptyChoicesChunk = [] \<and>
   spec_resolveModelId
     (serving [''llama-3''] [contentChunk ''Hel'', emptyChoicesChunk, contentChunk ''lo''])
     (handlerWith noOptions []) = Some ''llama-3'' \<and>
   chunkEvents emptyChoicesChunk = [ApiStreamUsageChunk 7 0] \<and>
   yielded (createMessage someExternals
       (serving [''llama-3''] [contentChunk ''Hel'', emptyChoicesChunk, contentChunk ''lo''])
       (handlerWith noOptions []) ''Be brief.'' []) =
     [ApiStreamTextChunk ''Hel'', ApiStreamUsageChunk 7 0, ApiStreamTextChunk ''lo''] \<and>
   thrown (createMessage someExternals
       (serving [''llama-3''] [contentChunk ''Hel'', emptyChoicesChunk, contentChunk ''lo''])
       (handlerWith noOptions []) ''Be brief.'' []) = None"
proof -
  let ?net = "serving [''llama-3''] [contentChunk ''Hel'', emptyChoicesChunk, contentChunk ''lo'']"
  have nodelta: "choices emptyChoicesChunk = [] \<or>
      (\<exists>ch rest. choices emptyChoicesChunk = ch # rest \<and> delta ch = None)"
    by (simp add: emptyChoicesChunk_def)
  have resolved: "spec_resolveModelId ?net (handlerWith noOptions []) = Some ''llama-3''"
    by (simp add: spec_resolveModelId_def spec_refreshed_def serving_def handlerWith_def
        constructor_def noOptions_def)
  have str: "chat_completions_create ?net
       (shapeRequest someExternals (options (handlerWith noOptions [])) ''llama-3''
          ''Be brief.'' []) =
     Inr ([contentChunk ''Hel''] @ emptyChoicesChunk # [contentChunk ''lo''], None)"
    by (simp add: serving_def)
  have hel: "chunkEvents (contentChunk s) = (if s = [] then [] else [ApiStreamTextChunk s])" for s
    by (simp add: chunkEvents_def firstDelta_def textEvents_def reasoningEvents_def
        usageEvents_def contentChunk_def)
  from chunk_without_delta [OF nodelta resolved str, of "[]"] resolved show ?thesis
    by (simp add: hel emptyChoicesChunk_def)
qed

subsection \<open>The cache over the adapter's lifetime\<close>

text \<open>
  Claim C8, as stated, fails. The constructor does not await the priming, and
  \<^verbatim>\<open>createMessage\<close> tests the cache before it awaits and writes it after. A call made
  while the priming is out finds the cache empty and starts a listing of its own; the
  priming settles with one model, so the cache is not empty; then the call's listing
  fails, \<^verbatim>\<open>listModels\<close> resolves to the empty list, and line 57 stores it.
\<close>

theorem cache_reset_counterexample:
  "run someExternals
     [Calls_createMessage unreachable ''Be brief.'' [],
      Settles 0 gpt4oPage unreachable]
     (newAdapter someExternals noOptions) =
     Some \<lparr>handler = handlerWith noOptions [''gpt-4o''],
           awaiting = [CreateMessage ''Be brief.'' []]\<rparr> \<and>
   availableModels (handlerWith noOptions [''gpt-4o'']) = [''gpt-4o''] \<and>
   run someExternals
     [Calls_createMessage unreachable ''Be brief.'' [],
      Settles 0 gpt4oPage unreachable,
      Settles 0 connectionError unreachable]
     (newAdapter someExternals noOptions) =
     Some \<lparr>handler = handlerWith noOptions [], awaiting = []\<rparr> \<and>
   availableModels (handlerWith noOptions []) = []"
  by (simp add: newAdapter_def handlerWith_def constructor_def noOptions_def
      awaitsListModels_def configuredModelId_def resumeTask_def initializeModelList_def
      listModels_def gpt4oPage_def connectionError_def resumeCreateMessage_after)

text \<open>
  Claim C8, amended. While the cache is not empty, a call of \<^verbatim>\<open>createMessage\<close> neither
  writes it nor starts a listing, and \<^verbatim>\<open>listModels\<close>, \<^verbatim>\<open>getModel\<close> and
  \<^verbatim>\<open>getAvailableModels\<close> never write anything. If moreover no listing started earlier
  is still awaited, nothing can settle, and the adapter stays as it is under every
  sequence of calls. A listing that is still awaited, the priming or a refresh, stores
  its result in the cache when it settles, whatever the cache holds then: the listed
  ids, or the empty list when the listing failed.
\<close>

theorem cache_stable_once_settled:
  "(availableModels (handler a) \<noteq> [] \<longrightarrow>
      step ext (Calls_createMessage net sys msgs) a = Some a) \<and>
   step ext (Calls_listModels settled) a = Some a \<and>
   step ext Calls_getModel a = Some a \<and>
   step ext Calls_getAvailableModels a = Some a \<and>
   (availableModels (handler a) \<noteq> [] \<and> awaiting a = [] \<longrightarrow>
      (\<forall>steps. run ext steps a = (if list_ex isSettles steps then None else Some a))) \<and>
   (n < length (awaiting a) \<longrightarrow>
      (\<exists>a'. step ext (Settles n settled net) a = Some a' \<and>
         availableModels (handler a') =
           (case settled of Inl _ \<Rightarrow> [] | Inr page \<Rightarrow> map model_id (data page))))"
proof -
  have create: "availableModels (handler a) \<noteq> [] \<longrightarrow>
      step ext (Calls_createMessage net sys msgs) a = Some a"
    using step_call_nonempty [of a "Calls_createMessage net sys msgs" ext] by simp
  have quiet: "availableModels (handler a) \<noteq> [] \<and> awaiting a = [] \<longrightarrow>
      (\<forall>steps. run ext steps a = (if list_ex isSettles steps then None else Some a))"
    using run_settled [of a ext] by blast
  have late: "n < length (awaiting a) \<longrightarrow>
      (\<exists>a'. step ext (Settles n settled net) a = Some a' \<and>
         availableModels (handler a') =
           (case settled of Inl _ \<Rightarrow> [] | Inr page \<Rightarrow> map model_id (data page)))"
    by (simp add: resumeTask_cache)
  from create quiet late step_call_any show ?thesis
    by blast
qed

theorem cache_stable_once_settled_witness:
  "run someExternals [Settles 0 gpt4oPage unreachable] (newAdapter someExternals noOptions) =
     Some primed \<and>
   availableModels (handler primed) = [''gpt-4o''] \<and>
   awaiting primed = [] \<and>
   run someExternals
     [Calls_createMessage unreachable ''Be brief.'' [], Calls_listModels connectionError,
      Calls_getAvailableModels, Calls_createMessage (serving [] []) ''Be brief.'' []]
     primed = Some primed \<and>
   (\<exists>a'. step someExternals (Settles 0 connectionError unreachable)
            (newAdapter someExternals noOptions) = Some a' \<and>
         availableModels (handler a') = [])"
proof -
  have reach: "run someExternals [Settles 0 gpt4oPage unreachable]
      (newAdapter someExternals noOptions) = Some primed"
    by (simp add: newAdapter_def primed_def handlerWith_def resumeTask_def
        initializeModelList_def listModels_def gpt4oPage_def)
  have cache: "availableModels (handler primed) = [''gpt-4o'']"
    and quiet: "awaiting primed = []"
    by (simp_all add: primed_def handlerWith_def)
  have pending: "0 < length (awaiting (newAdapter someExternals noOptions))"
    by (simp add: newAdapter_def)
  from cache_stable_once_settled [where a = primed and ext = someExternals]
  have stable: "run someExternals
     [Calls_createMessage unreachable ''Be brief.'' [], Calls_listModels connectionError,
      Calls_getAvailableModels, Calls_createMessage (serving [] []) ''Be brief.'' []]
     primed = Some primed"
    using cache quiet by simp
  from cache_stable_once_settled
    [where a = "newAdapter someExternals noOptions" and ext = someExternals and n = 0
       and settled = connectionError and net = unreachable]
    pending
  have late: "\<exists>a'. step someExternals (Settles 0 connectionError unreachable)
            (newAdapter someExternals noOptions) = Some a' \<and>
         availableModels (handler a') = []"
    by (simp add: connectionError_def)
  from reach cache quiet stable late show ?thesis
    by blast
qed

end
